theory Spec2Isabelle
  imports Main
begin

section \<open>nose.case: the test-case wrappers\<close>

text \<open>
  A shallow embedding of \<^verbatim>\<open>nose/case.py\<close>: the universal wrapper \<^verbatim>\<open>Test\<close>, and the
  constructors and \<^verbatim>\<open>address\<close> methods of \<^verbatim>\<open>FunctionTestCase\<close> and
  \<^verbatim>\<open>MethodTestCase\<close>. Exceptions are values of a sum type, the calls that \<^verbatim>\<open>run\<close>
  makes on its collaborators are recorded in a trace, and the instances that
  \<^verbatim>\<open>MethodTestCase\<close> creates live in an explicit store.
\<close>

subsection \<open>Exceptions\<close>

text \<open>
  A raised exception is its class, given by the names of the classes in its method
  resolution order, and its message. An \<^verbatim>\<open>except C\<close> clause matches when \<^verbatim>\<open>C\<close> is one
  of these classes.
\<close>

datatype pyexc = PyExc (exc_mro: "string list") (exc_msg: string)

definition isinstance :: "pyexc \<Rightarrow> string \<Rightarrow> bool" where
  "isinstance e c = (c \<in> set (exc_mro e))"

definition KeyboardInterrupt :: pyexc where
  "KeyboardInterrupt = PyExc [''KeyboardInterrupt'', ''BaseException''] []"

definition SystemExit :: "string \<Rightarrow> pyexc" where
  "SystemExit msg = PyExc [''SystemExit'', ''BaseException''] msg"

definition AttributeError :: "string \<Rightarrow> pyexc" where
  "AttributeError msg = PyExc [''AttributeError'', ''Exception'', ''BaseException''] msg"

definition TypeError :: "string \<Rightarrow> pyexc" where
  "TypeError msg = PyExc [''TypeError'', ''Exception'', ''BaseException''] msg"

definition ValueError :: "string \<Rightarrow> pyexc" where
  "ValueError msg = PyExc [''ValueError'', ''Exception'', ''BaseException''] msg"

definition RuntimeError :: "string \<Rightarrow> pyexc" where
  "RuntimeError msg = PyExc [''RuntimeError'', ''Exception'', ''BaseException''] msg"

subsection \<open>Values, attributes and effects\<close>

datatype pyval =
    PyNone
  | PyInt int
  | PyStr string
  | PyTuple "pyval list"
  | PyObj string

text \<open>An object's attributes: a missing key is an \<^verbatim>\<open>AttributeError\<close> on lookup.\<close>

type_synonym attrs = "string \<rightharpoonup> pyval"

text \<open>
  A Python call made for its effect on the world \<open>'w\<close> outside the wrapper: it
  returns a value or raises, and leaves a new world.
\<close>

type_synonym ('w, 'a) py = "'w \<Rightarrow> (pyexc + 'a) \<times> 'w"

text \<open>
  The result protocol. \<^verbatim>\<open>beforeTest\<close> and \<^verbatim>\<open>afterTest\<close> are optional attributes of
  the result object; \<^verbatim>\<open>addError\<close> receives the error information of the exception.
\<close>

record 'w result =
  r_beforeTest :: "('w, unit) py option"
  r_afterTest :: "('w, unit) py option"
  r_addError :: "pyexc \<Rightarrow> ('w, unit) py"

text \<open>
  The wrapped test object: its \<^verbatim>\<open>__call__\<close> (absent when the object is not
  callable), its attribute dictionary, its \<^verbatim>\<open>repr\<close>, the \<^verbatim>\<open>repr\<close> of each of its
  elements when it is a tuple, and the methods the wrapper uses, which read the
  attributes.
\<close>

record 'w testobj =
  t_call :: "('w result \<Rightarrow> ('w, unit) py) option"
  t_attrs :: attrs
  t_repr :: string
  t_tuple :: "string list option"
  t_str :: "attrs \<Rightarrow> pyexc + string"
  t_shortDescription :: "(attrs \<Rightarrow> pyexc + pyval) option"

text \<open>The plugin hooks that \<^verbatim>\<open>Test\<close> queries, each already applied to the wrapper.\<close>

record 'w plugins =
  testName :: "pyexc + string option"
  describeTest :: "pyexc + pyval"
  prepareTestCase :: "('w, ('w result \<Rightarrow> ('w, unit) py) option) py"

record 'w config =
  c_plugins :: "'w plugins"

record 'w Test =
  test :: "'w testobj"
  config :: "'w config"
  tbinfo :: pyval
  capturedOutput :: pyval
  resultProxy :: "('w result \<Rightarrow> ('w, 'w result) py) option"
  plugins :: "'w plugins"
  passed :: pyval

subsection \<open>Construction of the wrapper\<close>

definition callable :: "'w testobj \<Rightarrow> bool" where
  "callable t = (t_call t \<noteq> None)"

text \<open>
  The message of the constructor,
  \<^verbatim>\<open>"nose.case.Test called with argument %r that is not callable. A callable is required." % test\<close>.
  The \<^verbatim>\<open>%\<close> operator takes a tuple on its right as the list of arguments: the one
  \<^verbatim>\<open>%r\<close> formats the element of a tuple of one, and a tuple of any other length makes
  the operator itself raise \<^verbatim>\<open>TypeError\<close>.
\<close>

definition not_callable_message :: "'w testobj \<Rightarrow> pyexc + string" where
  "not_callable_message t =
     (case t_tuple t of
        None \<Rightarrow>
          Inr (''nose.case.Test called with argument '' @ t_repr t @
               '' that is not callable. A callable is required.'')
      | Some [] \<Rightarrow> Inl (TypeError ''not enough arguments for format string'')
      | Some [r] \<Rightarrow>
          Inr (''nose.case.Test called with argument '' @ r @
               '' that is not callable. A callable is required.'')
      | Some (r # r' # rs) \<Rightarrow>
          Inl (TypeError ''not all arguments converted during string formatting''))"

text \<open>
  \<^verbatim>\<open>Test.__init__(test, config=None, resultProxy=None)\<close>. \<open>Config\<close> is what
  \<^verbatim>\<open>nose.config.Config()\<close> returns.
\<close>

definition Test_init ::
  "'w config \<Rightarrow> 'w testobj \<Rightarrow> 'w config option \<Rightarrow>
   ('w result \<Rightarrow> ('w, 'w result) py) option \<Rightarrow> pyexc + 'w Test" where
  "Test_init Config t cfg proxy =
     (if \<not> callable t then
        (case not_callable_message t of
           Inl e \<Rightarrow> Inl e
         | Inr msg \<Rightarrow> Inl (TypeError msg))
      else
        let config' = (case cfg of None \<Rightarrow> Config | Some c \<Rightarrow> c)
        in Inr \<lparr> test = t, config = config', tbinfo = PyNone, capturedOutput = PyNone,
                 resultProxy = proxy, plugins = c_plugins config', passed = PyNone \<rparr>)"

subsection \<open>Running the wrapped test\<close>

text \<open>The calls that the wrapper makes, in the order it makes them.\<close>

datatype event =
    CallResultProxy
  | CallBeforeTest
  | CallPrepareTestCase
  | CallTest
  | CallPlugTest
  | CallAddError pyexc
  | CallAfterTest

type_synonym 'w st = "event list \<times> 'w"

definition call :: "event \<Rightarrow> ('w, 'a) py \<Rightarrow> ('w st, 'a) py" where
  "call ev f s = (case f (snd s) of (r, w') \<Rightarrow> (r, (fst s @ [ev], w')))"

definition Test_afterTest :: "'w result \<Rightarrow> ('w st, unit) py" where
  "Test_afterTest result s =
     (case r_afterTest result of
        None \<Rightarrow> (Inr (), s)
      | Some afterTest \<Rightarrow> call CallAfterTest afterTest s)"

definition Test_beforeTest :: "'w result \<Rightarrow> ('w st, unit) py" where
  "Test_beforeTest result s =
     (case r_beforeTest result of
        None \<Rightarrow> (Inr (), s)
      | Some beforeTest \<Rightarrow> call CallBeforeTest beforeTest s)"

definition Test_runTest :: "'w Test \<Rightarrow> 'w result \<Rightarrow> ('w st, unit) py" where
  "Test_runTest self result s =
     (case call CallPrepareTestCase (prepareTestCase (c_plugins (config self))) s of
        (Inl e, s1) \<Rightarrow> (Inl e, s1)
      | (Inr plug_test, s1) \<Rightarrow>
          (case plug_test of
             Some pt \<Rightarrow> call CallPlugTest (pt result) s1
           | None \<Rightarrow>
               (case t_call (test self) of
                  Some f \<Rightarrow> call CallTest (f result) s1
                | None \<Rightarrow> (Inl (TypeError ''object is not callable''), s1))))"

text \<open>The body of the inner \<^verbatim>\<open>try\<close>: the before-hook, then the test.\<close>

definition guarded :: "'w Test \<Rightarrow> 'w result \<Rightarrow> ('w st, unit) py" where
  "guarded self result s =
     (case Test_beforeTest result s of
        (Inl e, s1) \<Rightarrow> (Inl e, s1)
      | (Inr _, s1) \<Rightarrow> Test_runTest self result s1)"

text \<open>The two \<^verbatim>\<open>except\<close> clauses of the inner \<^verbatim>\<open>try\<close>, in their order.\<close>

definition handled :: "'w Test \<Rightarrow> 'w result \<Rightarrow> ('w st, unit) py" where
  "handled self result s =
     (case guarded self result s of
        (Inr u, s1) \<Rightarrow> (Inr u, s1)
      | (Inl e, s1) \<Rightarrow>
          if isinstance e ''KeyboardInterrupt'' then (Inl e, s1)
          else if isinstance e ''Exception'' then
            call (CallAddError e) (r_addError result e) s1
          else (Inl e, s1))"

text \<open>\<^verbatim>\<open>if self.resultProxy: result = self.resultProxy(result, self)\<close>\<close>

definition proxied :: "'w Test \<Rightarrow> 'w result \<Rightarrow> ('w st, 'w result) py" where
  "proxied self result s =
     (case resultProxy self of
        None \<Rightarrow> (Inr result, s)
      | Some p \<Rightarrow> call CallResultProxy (p result) s)"

text \<open>
  \<^verbatim>\<open>Test.run\<close>. The \<^verbatim>\<open>finally\<close> clause runs after the inner \<^verbatim>\<open>try\<close> however it
  ends; an exception it raises replaces the pending outcome.
\<close>

definition Test_run :: "'w Test \<Rightarrow> 'w result \<Rightarrow> ('w st, unit) py" where
  "Test_run self result0 s =
     (case proxied self result0 s of
        (Inl e, s1) \<Rightarrow> (Inl e, s1)
      | (Inr result, s1) \<Rightarrow>
          (case handled self result s1 of
             (r, s2) \<Rightarrow>
               (case Test_afterTest result s2 of
                  (Inl e', s3) \<Rightarrow> (Inl e', s3)
                | (Inr _, s3) \<Rightarrow> (r, s3))))"

text \<open>What a run from world \<open>w\<close> returns or raises, and the calls it made.\<close>

definition outcome :: "'w Test \<Rightarrow> 'w result \<Rightarrow> 'w \<Rightarrow> pyexc + unit" where
  "outcome self result w = fst (Test_run self result ([], w))"

definition calls :: "'w Test \<Rightarrow> 'w result \<Rightarrow> 'w \<Rightarrow> event list" where
  "calls self result w = fst (snd (Test_run self result ([], w)))"

fun is_addError :: "event \<Rightarrow> bool" where
  "is_addError (CallAddError e) = True"
| "is_addError _ = False"

subsection \<open>String form, description and context of the wrapper\<close>

text \<open>\<^verbatim>\<open>Test.__str__\<close>\<close>

definition Test_str :: "'w Test \<Rightarrow> pyexc + string" where
  "Test_str self =
     (case testName (plugins self) of
        Inl e \<Rightarrow> Inl e
      | Inr (Some name) \<Rightarrow> Inr name
      | Inr None \<Rightarrow> t_str (test self) (t_attrs (test self)))"

text \<open>\<^verbatim>\<open>str.strip()\<close> on ASCII text.\<close>

definition py_isspace :: "char \<Rightarrow> bool" where
  "py_isspace c = (of_char c \<in> {9, 10, 11, 12, 13, 28, 29, 30, 31, 32 :: nat})"

definition strip :: "string \<Rightarrow> string" where
  "strip s = rev (dropWhile py_isspace (rev (dropWhile py_isspace s)))"

text \<open>
  \<^verbatim>\<open>obj.name = obj.name.strip()\<close>: \<open>None\<close> stands for the \<^verbatim>\<open>AttributeError\<close> that a
  missing attribute, or a value without \<^verbatim>\<open>strip\<close>, raises.
\<close>

definition strip_attr :: "string \<Rightarrow> attrs \<Rightarrow> attrs option" where
  "strip_attr name d =
     (case d name of
        Some (PyStr s) \<Rightarrow> Some (d(name \<mapsto> PyStr (strip s)))
      | _ \<Rightarrow> None)"

text \<open>
  The last \<^verbatim>\<open>try\<close> of \<^verbatim>\<open>shortDescription\<close>: \<^verbatim>\<open>if desc == str(self.test): return\<close>,
  then \<^verbatim>\<open>return desc\<close>.
\<close>

definition same_as_str :: "'w testobj \<Rightarrow> pyval \<Rightarrow> pyexc + pyval" where
  "same_as_str t desc =
     (case t_str t (t_attrs t) of
        Inr s \<Rightarrow> if desc = PyStr s then Inr PyNone else Inr desc
      | Inl e \<Rightarrow> if isinstance e ''Exception'' then Inr desc else Inl e)"

text \<open>
  The nested \<^verbatim>\<open>try\<close> over \<^verbatim>\<open>_testMethodDoc\<close> and \<^verbatim>\<open>_TestCase__testMethodDoc\<close>: the
  first of the two that can be stripped is rebound, and neither is an error.
\<close>

definition strip_doc :: "attrs \<Rightarrow> attrs" where
  "strip_doc d =
     (case strip_attr ''_testMethodDoc'' d of
        Some d1 \<Rightarrow> d1
      | None \<Rightarrow>
          (case strip_attr ''_TestCase__testMethodDoc'' d of
             Some d2 \<Rightarrow> d2
           | None \<Rightarrow> d))"

text \<open>
  \<^verbatim>\<open>Test.shortDescription\<close>. It rebinds the documentation attribute of the wrapped
  test, so the wrapper is returned with the test as it is afterwards.
\<close>

definition Test_shortDescription :: "'w Test \<Rightarrow> (pyexc + pyval) \<times> 'w Test" where
  "Test_shortDescription self =
     (case describeTest (plugins self) of
        Inl e \<Rightarrow> (Inl e, self)
      | Inr desc \<Rightarrow>
          if desc \<noteq> PyNone then (Inr desc, self)
          else
            let t = (test self)\<lparr>t_attrs := strip_doc (t_attrs (test self))\<rparr>;
                self' = self\<lparr>test := t\<rparr>
            in (case (case t_shortDescription t of
                        None \<Rightarrow> Inl (AttributeError ''shortDescription'')
                      | Some m \<Rightarrow> m (t_attrs t)) of
                  Inr v \<Rightarrow> (same_as_str t v, self')
                | Inl e \<Rightarrow>
                    if isinstance e ''Exception'' then (same_as_str t desc, self')
                    else (Inl e, self')))"

text \<open>
  \<^verbatim>\<open>Test._context\<close>; \<open>resolve_name\<close> is \<^verbatim>\<open>nose.util.resolve_name\<close>. Only an
  \<^verbatim>\<open>AttributeError\<close> moves on to the next source.
\<close>

definition Test_context :: "(pyval \<Rightarrow> pyexc + pyval) \<Rightarrow> 'w Test \<Rightarrow> pyexc + pyval" where
  "Test_context resolve_name self =
     (case t_attrs (test self) ''context'' of
        Some v \<Rightarrow> Inr v
      | None \<Rightarrow>
          (case t_attrs (test self) ''__class__'' of
             Some c \<Rightarrow> Inr c
           | None \<Rightarrow>
               (case t_attrs (test self) ''__module__'' of
                  None \<Rightarrow> Inr PyNone
                | Some m \<Rightarrow>
                    (case resolve_name m of
                       Inr v \<Rightarrow> Inr v
                     | Inl e \<Rightarrow>
                         if isinstance e ''AttributeError'' then Inr PyNone
                         else Inl e))))"

text \<open>
  \<^verbatim>\<open>context = property(_context, None, None, ...)\<close>: reading the property calls the
  getter on the wrapper as it is and writes nothing.
\<close>

definition get_context ::
  "(pyval \<Rightarrow> pyexc + pyval) \<Rightarrow> 'w Test \<Rightarrow> (pyexc + pyval) \<times> 'w Test" where
  "get_context resolve_name self = (Test_context resolve_name self, self)"

text \<open>Rebinding an attribute of the wrapped test, which the wrapper references.\<close>

definition set_test_attr :: "string \<Rightarrow> pyval \<Rightarrow> 'w Test \<Rightarrow> 'w Test" where
  "set_test_attr name v self =
     self\<lparr>test := (test self)\<lparr>t_attrs := (t_attrs (test self))(name \<mapsto> v)\<rparr>\<rparr>"

subsection \<open>FunctionTestCase\<close>

record pyfunction =
  func_module :: string
  func_name :: string

text \<open>What \<^verbatim>\<open>nose.util.test_address\<close> returns: file, module and call name.\<close>

type_synonym address = "string \<times> string \<times> string"

record 'w FunctionTestCase =
  ftc_test :: pyfunction
  setUpFunc :: "('w, unit) py option"
  tearDownFunc :: "('w, unit) py option"
  ftc_arg :: "pyval list"
  ftc_descriptor :: "pyfunction option"

definition FunctionTestCase_init ::
  "pyfunction \<Rightarrow> ('w, unit) py option \<Rightarrow> ('w, unit) py option \<Rightarrow> pyval list \<Rightarrow>
   pyfunction option \<Rightarrow> 'w FunctionTestCase" where
  "FunctionTestCase_init t setUp tearDown arg descriptor =
     \<lparr> ftc_test = t, setUpFunc = setUp, tearDownFunc = tearDown, ftc_arg = arg,
       ftc_descriptor = descriptor \<rparr>"

text \<open>\<^verbatim>\<open>FunctionTestCase.address\<close>; \<open>test_address\<close> is \<^verbatim>\<open>nose.util.test_address\<close>.\<close>

definition FunctionTestCase_address ::
  "(pyfunction \<Rightarrow> pyexc + address) \<Rightarrow> 'w FunctionTestCase \<Rightarrow> pyexc + address" where
  "FunctionTestCase_address test_address self =
     (case ftc_descriptor self of
        Some d \<Rightarrow> test_address d
      | None \<Rightarrow> test_address (ftc_test self))"

subsection \<open>MethodTestCase\<close>

text \<open>
  The type of an instance: where the class is defined, and the names of the functions
  it defines.
\<close>

record pytype =
  c_module :: string
  c_name :: string
  c_methods :: "string list"

record pyinstance =
  i_class :: pytype
  i_dict :: attrs

text \<open>
  The store of instances. An address is a position in the list; the objects of the
  store are never removed.
\<close>

type_synonym addr = nat
type_synonym heap = "pyinstance list"

text \<open>
  A class, as far as \<^verbatim>\<open>MethodTestCase\<close> uses one. \<open>c_new\<close> is what a call of the
  class without arguments does in a given store: it raises, or returns the address of an
  object together with the store it leaves. Which object it returns is up to the class
  (its \<^verbatim>\<open>__new__\<close>, or the \<^verbatim>\<open>__call__\<close> of its metaclass).
\<close>

record pyclass =
  c_type :: pytype
  c_new :: "heap \<Rightarrow> pyexc + addr \<times> heap"

text \<open>
  What the call does for a class that does not override it: \<^verbatim>\<open>object.__new__\<close> makes
  a new object, at an address that no object of the store has, and \<^verbatim>\<open>__init__\<close> gives it
  its first attributes.
\<close>

definition object_new :: "pytype \<Rightarrow> attrs \<Rightarrow> heap \<Rightarrow> pyexc + addr \<times> heap" where
  "object_new ty d h = Inr (length h, h @ [\<lparr> i_class = ty, i_dict = d \<rparr>])"

definition heap_getattr :: "heap \<Rightarrow> addr \<Rightarrow> string \<Rightarrow> pyval option" where
  "heap_getattr h a name = (if a < length h then i_dict (h ! a) name else None)"


text \<open>
  The \<^verbatim>\<open>method\<close> argument, as the constructor reads it: \<^verbatim>\<open>isfunction(method)\<close>,
  \<^verbatim>\<open>method.__self__.__class__\<close> (absent when there is no \<^verbatim>\<open>__self__\<close>) and
  \<^verbatim>\<open>method.__name__\<close>.
\<close>

record pymethod =
  m_isfunction :: bool
  m_self_class :: "pyclass option"
  m_name :: string

text \<open>The callable a case runs.\<close>

datatype pycallable =
    BoundMethod addr string
  | AttrValue pyval
  | Given string

text \<open>
  \<^verbatim>\<open>getattr(inst, name)\<close>: the instance's own attribute, else the class's function
  bound to the instance.
\<close>

definition getattr_inst :: "heap \<Rightarrow> addr \<Rightarrow> string \<Rightarrow> pyexc + pycallable" where
  "getattr_inst h a name =
     (case heap_getattr h a name of
        Some v \<Rightarrow> Inr (AttrValue v)
      | None \<Rightarrow>
          if a < length h \<and> name \<in> set (c_methods (i_class (h ! a)))
          then Inr (BoundMethod a name)
          else Inl (AttributeError name))"

record MethodTestCase =
  mtc_method :: pymethod
  mtc_test :: pycallable
  mtc_arg :: "pyval list"
  mtc_descriptor :: "pyfunction option"
  cls :: pyclass
  inst :: addr

text \<open>\<^verbatim>\<open>MethodTestCase.__init__(method, test=None, arg=tuple(), descriptor=None)\<close>\<close>

definition MethodTestCase_init ::
  "heap \<Rightarrow> pymethod \<Rightarrow> pycallable option \<Rightarrow> pyval list \<Rightarrow> pyfunction option \<Rightarrow>
   pyexc + MethodTestCase \<times> heap" where
  "MethodTestCase_init h method t arg descriptor =
     (if m_isfunction method then
        Inl (ValueError (''Unbound methods must be wrapped using '' @
                         ''pyversion.unbound_method before passing to MethodTestCase''))
      else
        case m_self_class method of
          None \<Rightarrow> Inl (AttributeError ''__self__'')
        | Some c \<Rightarrow>
            (case c_new c h of
               Inl e \<Rightarrow> Inl e
             | Inr (a, h') \<Rightarrow>
                 (case (case t of
                          Some given \<Rightarrow> Inr given
                        | None \<Rightarrow> getattr_inst h' a (m_name method)) of
                    Inl e \<Rightarrow> Inl e
                  | Inr t' \<Rightarrow>
                      Inr (\<lparr> mtc_method = method, mtc_test = t', mtc_arg = arg,
                              mtc_descriptor = descriptor, cls = c, inst = a \<rparr>, h'))))"

subsection \<open>Traces\<close>

text \<open>A stretch of calls with no \<^verbatim>\<open>addError\<close> and no after-hook in it.\<close>

definition quiet :: "event list \<Rightarrow> bool" where
  "quiet tr = list_all (\<lambda>ev. \<not> is_addError ev \<and> ev \<noteq> CallAfterTest) tr"

subsection \<open>Example objects\<close>

text \<open>
  The world of the examples counts the calls that returned. \<open>collector\<close> is a result
  object with both hooks; \<open>wrapper\<close> wraps a test with no plugin and no proxy.
\<close>

definition returning :: "(nat, unit) py" where
  "returning w = (Inr (), Suc w)"

definition raising :: "pyexc \<Rightarrow> (nat, 'a) py" where
  "raising e w = (Inl e, w)"

definition collector :: "nat result" where
  "collector = \<lparr> r_beforeTest = Some returning, r_afterTest = Some returning,
                 r_addError = (\<lambda>e. returning) \<rparr>"

definition no_plugins :: "nat plugins" where
  "no_plugins = \<lparr> testName = Inr None, describeTest = Inr PyNone,
                  prepareTestCase = (\<lambda>w. (Inr None, w)) \<rparr>"

definition test_raising :: "pyexc \<Rightarrow> nat testobj" where
  "test_raising e =
     \<lparr> t_call = Some (\<lambda>r. raising e), t_attrs = Map.empty, t_repr = ''<case>'',
       t_tuple = None, t_str = (\<lambda>d. Inr ''case''), t_shortDescription = None \<rparr>"

definition test_passing :: "nat testobj" where
  "test_passing =
     \<lparr> t_call = Some (\<lambda>r. returning), t_attrs = [''context'' \<mapsto> PyObj ''A''],
       t_repr = ''<case>'', t_tuple = None, t_str = (\<lambda>d. Inr ''case''),
       t_shortDescription = Some (\<lambda>d. Inr (PyStr ''case'')) \<rparr>"

definition not_a_test :: "nat testobj" where
  "not_a_test =
     \<lparr> t_call = None, t_attrs = Map.empty, t_repr = ''42'', t_tuple = None,
       t_str = (\<lambda>d. Inr ''42''), t_shortDescription = None \<rparr>"

text \<open>The tuple \<^verbatim>\<open>(1, 2)\<close>, which is not callable either.\<close>

definition a_pair :: "nat testobj" where
  "a_pair =
     \<lparr> t_call = None, t_attrs = Map.empty, t_repr = ''(1, 2)'',
       t_tuple = Some [''1'', ''2''], t_str = (\<lambda>d. Inr ''(1, 2)''),
       t_shortDescription = None \<rparr>"

definition wrapper :: "nat testobj \<Rightarrow> nat Test" where
  "wrapper t =
     \<lparr> test = t, config = \<lparr> c_plugins = no_plugins \<rparr>, tbinfo = PyNone,
       capturedOutput = PyNone, resultProxy = None, plugins = no_plugins,
       passed = PyNone \<rparr>"

definition resolve_any :: "pyval \<Rightarrow> pyexc + pyval" where
  "resolve_any m = Inr m"

text \<open>
  \<open>TestThing\<close> is an ordinary class. \<open>Shared\<close> has the same functions, but its
  \<^verbatim>\<open>__new__\<close> keeps the one instance it has made, the first object of the store, and
  returns it again.
\<close>

definition thing :: pytype where
  "thing = \<lparr> c_module = ''things'', c_name = ''TestThing'',
             c_methods = [''test_a'', ''test_b''] \<rparr>"

definition TestThing :: pyclass where
  "TestThing = \<lparr> c_type = thing, c_new = object_new thing [''seen'' \<mapsto> PyInt 0] \<rparr>"


definition method_of :: "pyclass \<Rightarrow> string \<Rightarrow> pymethod" where
  "method_of c name = \<lparr> m_isfunction = False, m_self_class = Some c, m_name = name \<rparr>"

definition plain_function :: "string \<Rightarrow> pymethod" where
  "plain_function name = \<lparr> m_isfunction = True, m_self_class = None, m_name = name \<rparr>"

section \<open>Properties\<close>

subsection \<open>The calls of a run\<close>

lemma quiet_append: "quiet (tr @ tr') = (quiet tr \<and> quiet tr')"
  by (simp add: quiet_def)

lemma quiet_filter: "quiet tr \<Longrightarrow> filter is_addError tr = []"
  by (auto simp: quiet_def list_all_iff filter_empty_conv)

lemma quiet_count: "quiet tr \<Longrightarrow> count_list tr CallAfterTest = 0"
  by (auto simp: quiet_def list_all_iff count_list_0_iff)

lemma call_trace: "call ev f s = (r, s') \<Longrightarrow> fst s' = fst s @ [ev]"
  by (auto simp: call_def split: prod.splits)

lemma proxied_quiet:
  "proxied self result0 s = (r, s') \<Longrightarrow> \<exists>tr. fst s' = fst s @ tr \<and> quiet tr"
  by (auto simp: proxied_def quiet_def split: option.splits dest!: call_trace)

lemma beforeTest_quiet:
  "Test_beforeTest result s = (r, s') \<Longrightarrow> \<exists>tr. fst s' = fst s @ tr \<and> quiet tr"
  by (auto simp: Test_beforeTest_def quiet_def split: option.splits dest!: call_trace)

lemma runTest_quiet:
  "Test_runTest self result s = (r, s') \<Longrightarrow> \<exists>tr. fst s' = fst s @ tr \<and> quiet tr"
  by (auto simp: Test_runTest_def quiet_def split: option.splits prod.splits sum.splits
           dest!: call_trace)

lemma guarded_quiet:
  "guarded self result s = (r, s') \<Longrightarrow> \<exists>tr. fst s' = fst s @ tr \<and> quiet tr"
  by (fastforce simp: guarded_def quiet_def split: prod.splits sum.splits
           dest!: beforeTest_quiet runTest_quiet)

lemma afterTest_trace:
  "Test_afterTest result s = (r, s') \<Longrightarrow>
     fst s' = fst s @ (case r_afterTest result of None \<Rightarrow> [] | Some h \<Rightarrow> [CallAfterTest])"
  by (auto simp: Test_afterTest_def split: option.splits dest!: call_trace)

lemma handled_trace:
  "handled self result s = (r, s') \<Longrightarrow> guarded self result s = (g, s1) \<Longrightarrow>
     fst s' = fst s1 @
       (case g of Inr u \<Rightarrow> []
        | Inl e \<Rightarrow> if \<not> isinstance e ''KeyboardInterrupt'' \<and> isinstance e ''Exception''
                   then [CallAddError e] else [])"
  by (auto simp: handled_def split: sum.splits if_splits dest!: call_trace)

lemma run_trace:
  assumes P: "proxied self result0 s = (Inr result, s1)"
      and G: "guarded self result s1 = (g, s2)"
  shows "fst (snd (Test_run self result0 s)) =
           fst s2 @
           (case g of Inr u \<Rightarrow> []
            | Inl e \<Rightarrow> if \<not> isinstance e ''KeyboardInterrupt'' \<and> isinstance e ''Exception''
                       then [CallAddError e] else []) @
           (case r_afterTest result of None \<Rightarrow> [] | Some h \<Rightarrow> [CallAfterTest])"
proof -
  obtain r s3 where H: "handled self result s1 = (r, s3)"
    by (cases "handled self result s1")
  obtain a s4 where A: "Test_afterTest result s3 = (a, s4)"
    by (cases "Test_afterTest result s3")
  have "fst (snd (Test_run self result0 s)) = fst s4"
    using P H A by (simp add: Test_run_def split: sum.splits)
  then show ?thesis
    using handled_trace [OF H G] afterTest_trace [OF A] by simp
qed

lemma run_calls:
  assumes P: "proxied self result0 ([], w) = (Inr result, s1)"
      and G: "guarded self result s1 = (g, s2)"
  shows "\<exists>tr. quiet tr \<and> calls self result0 w =
           tr @
           (case g of Inr u \<Rightarrow> []
            | Inl e \<Rightarrow> if \<not> isinstance e ''KeyboardInterrupt'' \<and> isinstance e ''Exception''
                       then [CallAddError e] else []) @
           (case r_afterTest result of None \<Rightarrow> [] | Some h \<Rightarrow> [CallAfterTest])"
proof -
  obtain tr1 where T1: "fst s1 = tr1" "quiet tr1"
    using proxied_quiet [OF P] by auto
  obtain tr2 where T2: "fst s2 = fst s1 @ tr2" "quiet tr2"
    using guarded_quiet [OF G] by auto
  have "quiet (fst s2)" using T1 T2 by (simp add: quiet_append)
  then show ?thesis using run_trace [OF P G] by (auto simp: calls_def)
qed

subsection \<open>The outcome of a run\<close>

lemma afterTest_returns:
  assumes "\<forall>h w. r_afterTest result = Some h \<longrightarrow> fst (h w) = Inr ()"
  shows "fst (Test_afterTest result s) = Inr ()"
  using assms by (auto simp: Test_afterTest_def call_def case_prod_beta split: option.splits)

lemma run_outcome:
  assumes P: "proxied self result0 s = (Inr result, s1)"
      and A: "\<forall>h w. r_afterTest result = Some h \<longrightarrow> fst (h w) = Inr ()"
  shows "fst (Test_run self result0 s) = fst (handled self result s1)"
proof -
  obtain r s3 where H: "handled self result s1 = (r, s3)"
    by (cases "handled self result s1")
  obtain a s4 where T: "Test_afterTest result s3 = (a, s4)"
    by (cases "Test_afterTest result s3")
  have "a = Inr ()" using afterTest_returns [OF A, of s3] T by simp
  then show ?thesis using P H T by (simp add: Test_run_def)
qed

lemma run_raises:
  assumes P: "proxied self result0 s = (Inr result, s1)"
      and H: "fst (handled self result s1) = Inl e"
  shows "\<exists>e'. fst (Test_run self result0 s) = Inl e'"
  using P H by (auto simp: Test_run_def split: prod.splits sum.splits)

lemma handled_interrupt:
  "guarded self result s1 = (Inl e, s2) \<Longrightarrow> isinstance e ''KeyboardInterrupt'' \<Longrightarrow>
     handled self result s1 = (Inl e, s2)"
  by (simp add: handled_def)

lemma handled_reported:
  "guarded self result s1 = (Inl e, s2) \<Longrightarrow> \<not> isinstance e ''KeyboardInterrupt'' \<Longrightarrow>
   isinstance e ''Exception'' \<Longrightarrow> \<forall>x w. fst (r_addError result x w) = Inr () \<Longrightarrow>
     fst (handled self result s1) = Inr ()"
  by (simp add: handled_def call_def case_prod_beta)

lemma reported:
  assumes P: "proxied self result0 ([], w) = (Inr result, s1)"
      and G: "guarded self result s1 = (Inl e, s2)"
      and E: "isinstance e ''Exception''" and K: "\<not> isinstance e ''KeyboardInterrupt''"
  shows "filter is_addError (calls self result0 w) = [CallAddError e]"
    and "count_list (calls self result0 w) CallAfterTest =
           (case r_afterTest result of None \<Rightarrow> 0 | Some h \<Rightarrow> 1)"
    and "(\<forall>x w'. fst (r_addError result x w') = Inr ()) \<Longrightarrow>
         (\<forall>h w'. r_afterTest result = Some h \<longrightarrow> fst (h w') = Inr ()) \<Longrightarrow>
         outcome self result0 w = Inr ()"
proof -
  obtain tr where T: "quiet tr"
    "calls self result0 w = tr @ [CallAddError e] @
       (case r_afterTest result of None \<Rightarrow> [] | Some h \<Rightarrow> [CallAfterTest])"
    using run_calls [OF P G] E K by auto
  show "filter is_addError (calls self result0 w) = [CallAddError e]"
    using T by (simp add: quiet_filter split: option.splits)
  show "count_list (calls self result0 w) CallAfterTest =
           (case r_afterTest result of None \<Rightarrow> 0 | Some h \<Rightarrow> 1)"
    using T by (simp add: quiet_count split: option.splits)
  show "(\<forall>x w'. fst (r_addError result x w') = Inr ()) \<Longrightarrow>
         (\<forall>h w'. r_afterTest result = Some h \<longrightarrow> fst (h w') = Inr ()) \<Longrightarrow>
         outcome self result0 w = Inr ()"
    using run_outcome [OF P] handled_reported [OF G K E] by (simp add: outcome_def)
qed

subsection \<open>Exceptions raised by the test\<close>

text \<open>
  Claim C1, as amended. When the wrapped test is reached (the proxy factory, if any,
  and the before-hook have returned) and its invocation raises an exception that is an
  instance of \<^verbatim>\<open>Exception\<close> and not of \<^verbatim>\<open>KeyboardInterrupt\<close>, the run makes exactly
  one call of \<^verbatim>\<open>addError\<close>, with that exception as its error information; and when
  \<^verbatim>\<open>addError\<close> and the after-hook of the result do not raise themselves, the run
  returns normally, so the exception does not reach the caller.
\<close>

theorem Test_run_reports_Exception:
  assumes P: "proxied self result0 ([], w) = (Inr result, s1)"
      and B: "Test_beforeTest result s1 = (Inr (), s2)"
      and R: "Test_runTest self result s2 = (Inl e, s3)"
      and E: "isinstance e ''Exception''" and K: "\<not> isinstance e ''KeyboardInterrupt''"
  shows "filter is_addError (calls self result0 w) = [CallAddError e] \<and>
         ((\<forall>x w'. fst (r_addError result x w') = Inr ()) \<longrightarrow>
          (\<forall>h w'. r_afterTest result = Some h \<longrightarrow> fst (h w') = Inr ()) \<longrightarrow>
          outcome self result0 w = Inr ())"
proof -
  have G: "guarded self result s1 = (Inl e, s3)"
    using B R by (simp add: guarded_def)
  show ?thesis using reported(1,3) [OF P G E K] by blast
qed

text \<open>A test that raises \<^verbatim>\<open>RuntimeError\<close>, run against \<open>collector\<close>.\<close>

theorem Test_run_reports_Exception_witness:
  "isinstance (RuntimeError ''boom'') ''Exception'' \<and>
   filter is_addError (calls (wrapper (test_raising (RuntimeError ''boom''))) collector 0) =
     [CallAddError (RuntimeError ''boom'')] \<and>
   outcome (wrapper (test_raising (RuntimeError ''boom''))) collector 0 = Inr ()"
proof -
  let ?t = "wrapper (test_raising (RuntimeError ''boom''))"
  have P: "proxied ?t collector ([], 0) = (Inr collector, ([], 0))"
    by (simp add: proxied_def wrapper_def)
  have B: "Test_beforeTest collector ([], 0) = (Inr (), ([CallBeforeTest], 1))"
    by (simp add: Test_beforeTest_def collector_def call_def returning_def)
  have R: "Test_runTest ?t collector ([CallBeforeTest], 1) =
             (Inl (RuntimeError ''boom''), ([CallBeforeTest, CallPrepareTestCase, CallTest], 1))"
    by (simp add: Test_runTest_def wrapper_def no_plugins_def test_raising_def call_def
                  raising_def)
  have E: "isinstance (RuntimeError ''boom'') ''Exception''"
    by (simp add: isinstance_def RuntimeError_def)
  have K: "\<not> isinstance (RuntimeError ''boom'') ''KeyboardInterrupt''"
    by (simp add: isinstance_def RuntimeError_def)
  show ?thesis
    using E Test_run_reports_Exception [OF P B R E K]
    by (simp add: collector_def returning_def)
qed

text \<open>
  Claim C1 as written fails for an exception outside \<^verbatim>\<open>Exception\<close>: a test that
  raises \<^verbatim>\<open>SystemExit\<close>, which is no interrupt, passes both \<^verbatim>\<open>except\<close> clauses; no
  \<^verbatim>\<open>addError\<close> call is made and the exception leaves \<^verbatim>\<open>run\<close>.
\<close>

theorem Test_run_SystemExit_counterexample:
  "\<not> isinstance (SystemExit ''1'') ''KeyboardInterrupt'' \<and>
   filter is_addError (calls (wrapper (test_raising (SystemExit ''1''))) collector 0) = [] \<and>
   outcome (wrapper (test_raising (SystemExit ''1''))) collector 0 = Inl (SystemExit ''1'')"
  by (simp add: wrapper_def collector_def no_plugins_def test_raising_def returning_def
        raising_def proxied_def Test_beforeTest_def Test_runTest_def Test_afterTest_def
        call_def guarded_def handled_def Test_run_def calls_def outcome_def isinstance_def
        SystemExit_def)

subsection \<open>The after-hook\<close>

text \<open>
  Claim C2, as amended. Every run that gets its result object (there is no proxy
  factory, or the factory returns) calls the after-hook of that object exactly once when
  the object has one, and not at all when it has none, however the inner \<^verbatim>\<open>try\<close> ends:
  by returning, by a reported exception, by a re-raised interrupt or by any other
  exception. The call of the hook is the last call of the run.
\<close>

theorem Test_run_afterTest_once:
  assumes P: "proxied self result0 ([], w) = (Inr result, s1)"
  shows "count_list (calls self result0 w) CallAfterTest =
           (case r_afterTest result of None \<Rightarrow> 0 | Some h \<Rightarrow> 1) \<and>
         (r_afterTest result \<noteq> None \<longrightarrow> last (calls self result0 w) = CallAfterTest)"
proof -
  obtain g s2 where G: "guarded self result s1 = (g, s2)"
    by (cases "guarded self result s1")
  obtain tr where T: "quiet tr"
    "calls self result0 w = tr @
       (case g of Inr u \<Rightarrow> []
        | Inl e \<Rightarrow> if \<not> isinstance e ''KeyboardInterrupt'' \<and> isinstance e ''Exception''
                   then [CallAddError e] else []) @
       (case r_afterTest result of None \<Rightarrow> [] | Some h \<Rightarrow> [CallAfterTest])"
    using run_calls [OF P G] by auto
  show ?thesis
    using T by (auto simp: quiet_count split: option.splits sum.splits)
qed

text \<open>A passing test run against \<open>collector\<close>.\<close>

theorem Test_run_afterTest_once_witness:
  "count_list (calls (wrapper test_passing) collector 0) CallAfterTest = 1 \<and>
   last (calls (wrapper test_passing) collector 0) = CallAfterTest"
proof -
  have P: "proxied (wrapper test_passing) collector ([], 0) = (Inr collector, ([], 0))"
    by (simp add: proxied_def wrapper_def)
  show ?thesis
    using Test_run_afterTest_once [OF P] by (simp add: collector_def)
qed

text \<open>
  Claim C2 as written fails on one exit path: the proxy factory is called before the
  \<^verbatim>\<open>try\<close>, so when it raises, \<^verbatim>\<open>run\<close> ends without any call of the after-hook,
  though the result object has one.
\<close>

theorem Test_run_proxy_raises_counterexample:
  "r_afterTest collector \<noteq> None \<and>
   count_list (calls ((wrapper test_passing)\<lparr>resultProxy := Some (\<lambda>r. raising (RuntimeError ''proxy''))\<rparr>)
                 collector 0) CallAfterTest = 0 \<and>
   outcome ((wrapper test_passing)\<lparr>resultProxy := Some (\<lambda>r. raising (RuntimeError ''proxy''))\<rparr>)
                 collector 0 = Inl (RuntimeError ''proxy'')"
  by (simp add: wrapper_def collector_def raising_def proxied_def call_def Test_run_def
        calls_def outcome_def)

subsection \<open>Interrupts\<close>

text \<open>
  Claim C3, as amended. When the invocation of the wrapped test raises an instance of
  \<^verbatim>\<open>KeyboardInterrupt\<close>, no \<^verbatim>\<open>addError\<close> call is made; the after-hook is called exactly
  once when the result has one, as the last call of the run; the run ends by raising;
  and when the after-hook returns, what the run raises is the interrupt itself.
\<close>

theorem Test_run_KeyboardInterrupt:
  assumes P: "proxied self result0 ([], w) = (Inr result, s1)"
      and B: "Test_beforeTest result s1 = (Inr (), s2)"
      and R: "Test_runTest self result s2 = (Inl e, s3)"
      and K: "isinstance e ''KeyboardInterrupt''"
  shows "filter is_addError (calls self result0 w) = [] \<and>
         count_list (calls self result0 w) CallAfterTest =
           (case r_afterTest result of None \<Rightarrow> 0 | Some h \<Rightarrow> 1) \<and>
         (r_afterTest result \<noteq> None \<longrightarrow> last (calls self result0 w) = CallAfterTest) \<and>
         (\<exists>e'. outcome self result0 w = Inl e') \<and>
         ((\<forall>h w'. r_afterTest result = Some h \<longrightarrow> fst (h w') = Inr ()) \<longrightarrow>
          outcome self result0 w = Inl e)"
proof -
  have G: "guarded self result s1 = (Inl e, s3)"
    using B R by (simp add: guarded_def)
  have H: "handled self result s1 = (Inl e, s3)"
    using handled_interrupt [OF G K] .
  obtain tr where T: "quiet tr"
    "calls self result0 w = tr @
       (case r_afterTest result of None \<Rightarrow> [] | Some h \<Rightarrow> [CallAfterTest])"
    using run_calls [OF P G] K by auto
  have 1: "filter is_addError (calls self result0 w) = []"
    using T by (simp add: quiet_filter split: option.splits)
  have 2: "count_list (calls self result0 w) CallAfterTest =
           (case r_afterTest result of None \<Rightarrow> 0 | Some h \<Rightarrow> 1)"
    using T by (simp add: quiet_count split: option.splits)
  have 3: "r_afterTest result \<noteq> None \<longrightarrow> last (calls self result0 w) = CallAfterTest"
    using T by (auto split: option.splits)
  have 4: "\<exists>e'. outcome self result0 w = Inl e'"
    using run_raises [OF P, of e] H by (simp add: outcome_def)
  have 5: "(\<forall>h w'. r_afterTest result = Some h \<longrightarrow> fst (h w') = Inr ()) \<longrightarrow>
          outcome self result0 w = Inl e"
    using run_outcome [OF P] H by (simp add: outcome_def)
  show ?thesis using 1 2 3 4 5 by blast
qed

text \<open>A test that raises \<^verbatim>\<open>KeyboardInterrupt\<close>, run against \<open>collector\<close>.\<close>

theorem Test_run_KeyboardInterrupt_witness:
  "isinstance KeyboardInterrupt ''KeyboardInterrupt'' \<and>
   filter is_addError (calls (wrapper (test_raising KeyboardInterrupt)) collector 0) = [] \<and>
   count_list (calls (wrapper (test_raising KeyboardInterrupt)) collector 0) CallAfterTest = 1 \<and>
   outcome (wrapper (test_raising KeyboardInterrupt)) collector 0 = Inl KeyboardInterrupt"
proof -
  let ?t = "wrapper (test_raising KeyboardInterrupt)"
  have P: "proxied ?t collector ([], 0) = (Inr collector, ([], 0))"
    by (simp add: proxied_def wrapper_def)
  have B: "Test_beforeTest collector ([], 0) = (Inr (), ([CallBeforeTest], 1))"
    by (simp add: Test_beforeTest_def collector_def call_def returning_def)
  have R: "Test_runTest ?t collector ([CallBeforeTest], 1) =
             (Inl KeyboardInterrupt, ([CallBeforeTest, CallPrepareTestCase, CallTest], 1))"
    by (simp add: Test_runTest_def wrapper_def no_plugins_def test_raising_def call_def
                  raising_def)
  have K: "isinstance KeyboardInterrupt ''KeyboardInterrupt''"
    by (simp add: isinstance_def KeyboardInterrupt_def)
  show ?thesis
    using K Test_run_KeyboardInterrupt [OF P B R K]
    by (simp add: collector_def returning_def)
qed

text \<open>
  Claim C3 as written fails when the after-hook raises: the \<^verbatim>\<open>finally\<close> clause calls
  it while the interrupt is pending, and its exception leaves \<^verbatim>\<open>run\<close> in place of the
  interrupt.
\<close>

theorem Test_run_afterTest_replaces_interrupt_counterexample:
  "isinstance KeyboardInterrupt ''KeyboardInterrupt'' \<and>
   outcome (wrapper (test_raising KeyboardInterrupt))
     (collector\<lparr>r_afterTest := Some (raising (ValueError ''after''))\<rparr>) 0 =
     Inl (ValueError ''after'') \<and>
   ValueError ''after'' \<noteq> KeyboardInterrupt"
  by (simp add: wrapper_def collector_def no_plugins_def test_raising_def returning_def
        raising_def proxied_def Test_beforeTest_def Test_runTest_def Test_afterTest_def
        call_def guarded_def handled_def Test_run_def outcome_def isinstance_def
        KeyboardInterrupt_def ValueError_def)

subsection \<open>Exceptions raised by the before-hook\<close>

text \<open>
  Claim C10, as amended. When the before-hook of the result raises an exception that
  is an instance of \<^verbatim>\<open>Exception\<close> and not of \<^verbatim>\<open>KeyboardInterrupt\<close>, the run makes
  exactly one call of \<^verbatim>\<open>addError\<close>, with that exception; the after-hook is still called
  exactly once when the result has one; and when \<^verbatim>\<open>addError\<close> and the after-hook do not
  raise themselves, the run returns normally.
\<close>

theorem Test_run_beforeTest_raises:
  assumes P: "proxied self result0 ([], w) = (Inr result, s1)"
      and B: "Test_beforeTest result s1 = (Inl e, s2)"
      and E: "isinstance e ''Exception''" and K: "\<not> isinstance e ''KeyboardInterrupt''"
  shows "filter is_addError (calls self result0 w) = [CallAddError e] \<and>
         count_list (calls self result0 w) CallAfterTest =
           (case r_afterTest result of None \<Rightarrow> 0 | Some h \<Rightarrow> 1) \<and>
         ((\<forall>x w'. fst (r_addError result x w') = Inr ()) \<longrightarrow>
          (\<forall>h w'. r_afterTest result = Some h \<longrightarrow> fst (h w') = Inr ()) \<longrightarrow>
          outcome self result0 w = Inr ())"
proof -
  have G: "guarded self result s1 = (Inl e, s2)"
    using B by (simp add: guarded_def)
  show ?thesis using reported [OF P G E K] by blast
qed

text \<open>A before-hook that raises \<^verbatim>\<open>ValueError\<close>: the test is never called.\<close>

theorem Test_run_beforeTest_raises_witness:
  "isinstance (ValueError ''hook'') ''Exception'' \<and>
   calls (wrapper test_passing) (collector\<lparr>r_beforeTest := Some (raising (ValueError ''hook''))\<rparr>) 0 =
     [CallBeforeTest, CallAddError (ValueError ''hook''), CallAfterTest] \<and>
   outcome (wrapper test_passing)
     (collector\<lparr>r_beforeTest := Some (raising (ValueError ''hook''))\<rparr>) 0 = Inr ()"
proof -
  let ?r = "collector\<lparr>r_beforeTest := Some (raising (ValueError ''hook''))\<rparr>"
  have P: "proxied (wrapper test_passing) ?r ([], 0) = (Inr ?r, ([], 0))"
    by (simp add: proxied_def wrapper_def)
  have B: "Test_beforeTest ?r ([], 0) = (Inl (ValueError ''hook''), ([CallBeforeTest], 0))"
    by (simp add: Test_beforeTest_def collector_def call_def raising_def)
  have E: "isinstance (ValueError ''hook'') ''Exception''"
    by (simp add: isinstance_def ValueError_def)
  have K: "\<not> isinstance (ValueError ''hook'') ''KeyboardInterrupt''"
    by (simp add: isinstance_def ValueError_def)
  have C: "calls (wrapper test_passing) ?r 0 =
     [CallBeforeTest, CallAddError (ValueError ''hook''), CallAfterTest]"
    by (simp add: wrapper_def collector_def returning_def
        raising_def proxied_def Test_beforeTest_def Test_afterTest_def
        call_def guarded_def handled_def Test_run_def calls_def isinstance_def
        ValueError_def)
  show ?thesis
    using E C Test_run_beforeTest_raises [OF P B E K]
    by (simp add: collector_def returning_def)
qed

text \<open>
  Claim C10 as written fails for a before-hook that raises \<^verbatim>\<open>SystemExit\<close>: it is no
  interrupt, yet no \<^verbatim>\<open>addError\<close> call is made and the exception leaves \<^verbatim>\<open>run\<close>.
\<close>

theorem Test_run_beforeTest_SystemExit_counterexample:
  "\<not> isinstance (SystemExit ''2'') ''KeyboardInterrupt'' \<and>
   filter is_addError
     (calls (wrapper test_passing)
        (collector\<lparr>r_beforeTest := Some (raising (SystemExit ''2''))\<rparr>) 0) = [] \<and>
   outcome (wrapper test_passing)
     (collector\<lparr>r_beforeTest := Some (raising (SystemExit ''2''))\<rparr>) 0 = Inl (SystemExit ''2'')"
  by (simp add: wrapper_def collector_def returning_def
        raising_def proxied_def Test_beforeTest_def Test_afterTest_def
        call_def guarded_def handled_def Test_run_def calls_def outcome_def isinstance_def
        SystemExit_def)

subsection \<open>Construction of the wrapper\<close>

text \<open>
  Claim C4 at the tuple \<^verbatim>\<open>(1, 2)\<close>. The tuple is not callable and the constructor
  fails, with a \<^verbatim>\<open>TypeError\<close>; but the error is the one the \<^verbatim>\<open>%\<close> operator raises for a
  format with one \<^verbatim>\<open>%r\<close> and two arguments, and says nothing of the object or of a
  callable being required.
\<close>

theorem Test_init_pair_message:
  "\<not> callable a_pair \<and>
   Test_init \<lparr> c_plugins = no_plugins \<rparr> a_pair None None =
     Inl (TypeError ''not all arguments converted during string formatting'')"
  by (simp add: Test_init_def callable_def a_pair_def not_callable_message_def)

text \<open>
  For every object that is not callable the constructor fails with a \<^verbatim>\<open>TypeError\<close>,
  so that every wrapper that exists, and can be run, wraps a callable; and for every
  such object that is not a tuple the message shows the object and says that a callable
  is required.
\<close>

theorem Test_init_not_callable:
  "(\<not> callable t \<longrightarrow>
      (\<exists>msg. Test_init Config t cfg proxy = Inl (TypeError msg)) \<and>
      (t_tuple t = None \<longrightarrow>
         Test_init Config t cfg proxy =
           Inl (TypeError (''nose.case.Test called with argument '' @ t_repr t @
                           '' that is not callable. A callable is required.'')))) \<and>
   (\<forall>self. Test_init Config t cfg proxy = Inr self \<longrightarrow> callable (test self))"
  by (auto simp: Test_init_def not_callable_message_def Let_def
           split: if_splits option.splits list.splits)

text \<open>The object \<open>42\<close> is refused, with the message about it.\<close>

theorem Test_init_not_callable_witness:
  "\<not> callable not_a_test \<and> t_tuple not_a_test = None \<and>
   Test_init \<lparr> c_plugins = no_plugins \<rparr> not_a_test None None =
     Inl (TypeError
       ''nose.case.Test called with argument 42 that is not callable. A callable is required.'')"
  using Test_init_not_callable [of not_a_test "\<lparr> c_plugins = no_plugins \<rparr>" None None]
  by (simp add: callable_def not_a_test_def)

subsection \<open>Addresses of function cases\<close>

text \<open>
  Claim C5. The address of a function case built with a descriptor is the address of
  the descriptor; built without one, it is the address of the function itself.
\<close>

theorem FunctionTestCase_address_descriptor:
  "FunctionTestCase_address test_address (FunctionTestCase_init F setUp tearDown arg (Some D))
     = test_address D \<and>
   FunctionTestCase_address test_address (FunctionTestCase_init F setUp tearDown arg None)
     = test_address F"
  by (simp add: FunctionTestCase_address_def FunctionTestCase_init_def)

text \<open>A generated check with arguments \<open>(1, 2)\<close> is addressed by its generator.\<close>

theorem FunctionTestCase_address_descriptor_witness:
  "FunctionTestCase_address (\<lambda>f. Inr (''/t.py'', func_module f, func_name f))
     (FunctionTestCase_init \<lparr> func_module = ''t'', func_name = ''check'' \<rparr>
        (Some returning) None [PyInt 1, PyInt 2]
        (Some \<lparr> func_module = ''t'', func_name = ''test_gen'' \<rparr>))
     = Inr (''/t.py'', ''t'', ''test_gen'')"
  using FunctionTestCase_address_descriptor
    [of "\<lambda>f. Inr (''/t.py'', func_module f, func_name f)"
        "\<lparr> func_module = ''t'', func_name = ''check'' \<rparr>" "Some returning" None
        "[PyInt 1, PyInt 2]" "\<lparr> func_module = ''t'', func_name = ''test_gen'' \<rparr>"]
  by simp

subsection \<open>Construction of method cases\<close>

lemma c_new_TestThing: "c_new TestThing = object_new thing [''seen'' \<mapsto> PyInt 0]"
  by (simp add: TestThing_def)









text \<open>
  Claim C7. Constructing a method case from a plain function fails in the constructor
  with the \<^verbatim>\<open>ValueError\<close> about unbound methods; and a construction that succeeds was
  given something that is no plain function and has a \<^verbatim>\<open>__self__\<close> whose class, called
  without arguments, returned the instance of the case.
\<close>

theorem MethodTestCase_init_function:
  "(m_isfunction method \<longrightarrow>
      MethodTestCase_init h method t arg descriptor =
        Inl (ValueError (''Unbound methods must be wrapped using '' @
                         ''pyversion.unbound_method before passing to MethodTestCase''))) \<and>
   (\<forall>c h'. MethodTestCase_init h method t arg descriptor = Inr (c, h') \<longrightarrow>
      \<not> m_isfunction method \<and> m_self_class method = Some (cls c) \<and>
      c_new (cls c) h = Inr (inst c, h'))"
  by (auto simp: MethodTestCase_init_def split: if_splits option.splits sum.splits prod.splits)

text \<open>A plain function is refused; a method of \<open>TestThing\<close> is accepted.\<close>

theorem MethodTestCase_init_function_witness:
  "m_isfunction (plain_function ''test_a'') \<and>
   MethodTestCase_init [] (plain_function ''test_a'') None [] None =
     Inl (ValueError
       ''Unbound methods must be wrapped using pyversion.unbound_method before passing to MethodTestCase'') \<and>
   MethodTestCase_init [] (method_of TestThing ''test_a'') None [] None =
     Inr (\<lparr> mtc_method = method_of TestThing ''test_a'', mtc_test = BoundMethod 0 ''test_a'',
            mtc_arg = [], mtc_descriptor = None, cls = TestThing, inst = 0 \<rparr>,
          [\<lparr> i_class = thing, i_dict = [''seen'' \<mapsto> PyInt 0] \<rparr>])"
  using MethodTestCase_init_function [of "plain_function ''test_a''" "[]" None "[]" None]
  by (simp add: plain_function_def method_of_def c_new_TestThing thing_def MethodTestCase_init_def
        object_new_def getattr_inst_def heap_getattr_def)

subsection \<open>The description of the wrapper\<close>

text \<open>
  Claim C8, as amended. When the \<^verbatim>\<open>describeTest\<close> hook gives nothing and the wrapped
  test's own \<^verbatim>\<open>shortDescription()\<close> equals the wrapped test's \<^verbatim>\<open>str\<close>, the wrapper's
  \<^verbatim>\<open>shortDescription()\<close> returns \<^verbatim>\<open>None\<close>; a description given by the hook is returned
  as it is, without any comparison.
\<close>

theorem Test_shortDescription_same_as_str:
  "(describeTest (plugins self) = Inr PyNone \<longrightarrow>
    t_shortDescription (test self) = Some m \<longrightarrow>
    m (strip_doc (t_attrs (test self))) = Inr (PyStr s) \<longrightarrow>
    t_str (test self) (strip_doc (t_attrs (test self))) = Inr s \<longrightarrow>
      fst (Test_shortDescription self) = Inr PyNone) \<and>
   (describeTest (plugins self) = Inr desc \<longrightarrow> desc \<noteq> PyNone \<longrightarrow>
      fst (Test_shortDescription self) = Inr desc)"
  by (simp add: Test_shortDescription_def same_as_str_def Let_def)

text \<open>A test whose description is its own string form.\<close>

theorem Test_shortDescription_same_as_str_witness:
  "t_str test_passing (strip_doc (t_attrs test_passing)) = Inr ''case'' \<and>
   fst (Test_shortDescription (wrapper test_passing)) = Inr PyNone"
  using Test_shortDescription_same_as_str
    [of "wrapper test_passing" "\<lambda>d. Inr (PyStr ''case'')" "''case''"]
  by (simp add: wrapper_def test_passing_def no_plugins_def)

text \<open>
  Claim C8 as written fails when the \<^verbatim>\<open>describeTest\<close> hook gives the description: it
  is returned even though it equals the string form of the wrapper.
\<close>

theorem Test_shortDescription_plugin_counterexample:
  "Test_str ((wrapper test_passing)
      \<lparr>plugins := no_plugins\<lparr>describeTest := Inr (PyStr ''case'')\<rparr>\<rparr>) = Inr ''case'' \<and>
   fst (Test_shortDescription ((wrapper test_passing)
      \<lparr>plugins := no_plugins\<lparr>describeTest := Inr (PyStr ''case'')\<rparr>\<rparr>)) = Inr (PyStr ''case'')"
  by (simp add: Test_str_def Test_shortDescription_def wrapper_def test_passing_def
        no_plugins_def)

subsection \<open>The context of the wrapper\<close>

text \<open>
  Claim C9, as amended. Reading \<^verbatim>\<open>context\<close> leaves the wrapper as it is and computes
  the value from the wrapped test as it is at that moment, so that after the test's
  \<^verbatim>\<open>context\<close> attribute is rebound the next read gives the new value. The value is the
  first of: the test's \<^verbatim>\<open>context\<close> attribute, its \<^verbatim>\<open>__class__\<close>, the resolved
  \<^verbatim>\<open>__module__\<close> (\<^verbatim>\<open>None\<close> when resolving raises \<^verbatim>\<open>AttributeError\<close>); and \<^verbatim>\<open>None\<close>
  when the test has none of the three.
\<close>

theorem Test_context_recomputed:
  "snd (get_context resolve_name self) = self \<and>
   fst (get_context resolve_name self) = Test_context resolve_name self \<and>
   fst (get_context resolve_name
          (set_test_attr ''context'' v (snd (get_context resolve_name self)))) = Inr v \<and>
   (\<forall>x. t_attrs (test self) ''context'' = Some x \<longrightarrow>
        Test_context resolve_name self = Inr x) \<and>
   (\<forall>c. t_attrs (test self) ''context'' = None \<longrightarrow>
        t_attrs (test self) ''__class__'' = Some c \<longrightarrow>
        Test_context resolve_name self = Inr c) \<and>
   (\<forall>m. t_attrs (test self) ''context'' = None \<longrightarrow>
        t_attrs (test self) ''__class__'' = None \<longrightarrow>
        t_attrs (test self) ''__module__'' = Some m \<longrightarrow>
        Test_context resolve_name self =
          (case resolve_name m of
             Inr x \<Rightarrow> Inr x
           | Inl e \<Rightarrow> if isinstance e ''AttributeError'' then Inr PyNone else Inl e)) \<and>
   (t_attrs (test self) ''context'' = None \<longrightarrow>
    t_attrs (test self) ''__class__'' = None \<longrightarrow>
    t_attrs (test self) ''__module__'' = None \<longrightarrow>
      Test_context resolve_name self = Inr PyNone)"
  by (simp add: get_context_def Test_context_def set_test_attr_def)

text \<open>A test with a \<^verbatim>\<open>context\<close> attribute, and one with no attribute at all.\<close>

theorem Test_context_recomputed_witness:
  "t_attrs (test (wrapper test_passing)) ''context'' = Some (PyObj ''A'') \<and>
   Test_context resolve_any (wrapper test_passing) = Inr (PyObj ''A'') \<and>
   t_attrs (test (wrapper (test_raising KeyboardInterrupt))) ''context'' = None \<and>
   Test_context resolve_any (wrapper (test_raising KeyboardInterrupt)) = Inr PyNone"
  using Test_context_recomputed [of resolve_any "wrapper test_passing"]
        Test_context_recomputed [of resolve_any "wrapper (test_raising KeyboardInterrupt)"]
  by (simp add: wrapper_def test_passing_def test_raising_def)

text \<open>
  Claim C9 as written fails on memoization: the second read does not return the value
  of the first read once the attribute of the wrapped test has been rebound.
\<close>

theorem Test_context_memoized_counterexample:
  "fst (get_context resolve_any (wrapper test_passing)) = Inr (PyObj ''A'') \<and>
   fst (get_context resolve_any
          (set_test_attr ''context'' (PyObj ''B'')
             (snd (get_context resolve_any (wrapper test_passing))))) \<noteq>
     fst (get_context resolve_any (wrapper test_passing)) \<and>
   fst (get_context resolve_any
          (set_test_attr ''context'' (PyObj ''B'')
             (snd (get_context resolve_any (wrapper test_passing))))) = Inr (PyObj ''B'')"
  by (simp add: get_context_def Test_context_def set_test_attr_def wrapper_def
        test_passing_def)

end
